theory Spec2Isabelle
  imports Main "HOL-Library.Sublist"
begin

section \<open>Python values and string primitives\<close>

text \<open>
  The program is a Python script (\<^verbatim>\<open>src/main.py\<close>). Python strings are modelled as
  \<^typ>\<open>string\<close>; a character of the model stands for one code point of the Python string.
\<close>

text \<open>A Python float, as far as its truth value is concerned.\<close>

datatype pyfloat = Finite int int | PosInf | NegInf | NaN

text \<open>
  The values \<^verbatim>\<open>json.loads\<close> produces. A \<open>JDict\<close> holds the items of the parsed
  \<^verbatim>\<open>dict\<close> (its keys are distinct).
\<close>

datatype json =
    JNull
  | JBool bool
  | JInt int
  | JFloat pyfloat
  | JStr string
  | JList "json list"
  | JDict "(string \<times> json) list"

text \<open>Python truthiness (\<^verbatim>\<open>if x:\<close>).\<close>

fun truthy :: "json \<Rightarrow> bool" where
  "truthy JNull = False"
| "truthy (JBool b) = b"
| "truthy (JInt i) = (i \<noteq> 0)"
| "truthy (JFloat (Finite m e)) = (m \<noteq> 0)"
| "truthy (JFloat PosInf) = True"
| "truthy (JFloat NegInf) = True"
| "truthy (JFloat NaN) = True"
| "truthy (JStr s) = (s \<noteq> [])"
| "truthy (JList xs) = (xs \<noteq> [])"
| "truthy (JDict kvs) = (kvs \<noteq> [])"

text \<open>
  \<^verbatim>\<open>str(x)\<close>: the identity on a string. How Python renders the other values
  (numbers, lists, dicts, \<^verbatim>\<open>None\<close>) is the parameter \<open>str_of\<close>.
\<close>

fun py_str :: "(json \<Rightarrow> string) \<Rightarrow> json \<Rightarrow> string" where
  "py_str str_of (JStr s) = s"
| "py_str str_of v = str_of v"

fun isinstance_list :: "json \<Rightarrow> bool" where
  "isinstance_list (JList xs) = True"
| "isinstance_list v = False"

fun isinstance_dict :: "json \<Rightarrow> bool" where
  "isinstance_dict (JDict kvs) = True"
| "isinstance_dict v = False"

text \<open>\<^verbatim>\<open>d.get(key, default)\<close> on the items of a dict.\<close>

definition dict_get :: "(string \<times> 'v) list \<Rightarrow> string \<Rightarrow> 'v \<Rightarrow> 'v" where
  "dict_get d k dflt = (case map_of d k of Some v \<Rightarrow> v | None \<Rightarrow> dflt)"

text \<open>
  \<^verbatim>\<open>d[key] = value\<close>: an existing key keeps its place in the iteration order, a new
  key goes to the end.
\<close>

fun dict_set :: "(string \<times> 'v) list \<Rightarrow> string \<Rightarrow> 'v \<Rightarrow> (string \<times> 'v) list" where
  "dict_set [] k v = [(k, v)]"
| "dict_set ((k', v') # d) k v = (if k' = k then (k, v) # d else (k', v') # dict_set d k v)"

text \<open>\<^verbatim>\<open>sep.join(xs)\<close>.\<close>

fun join :: "string \<Rightarrow> string list \<Rightarrow> string" where
  "join sep [] = []"
| "join sep [x] = x"
| "join sep (x # y # ys) = x @ sep @ join sep (y # ys)"

text \<open>
  \<^verbatim>\<open>s.replace(old, new)\<close>: every non-overlapping occurrence of \<open>old\<close>, found from the
  left, is replaced by \<open>new\<close>; the scan goes on after the occurrence, so the inserted text is
  not looked at again by this call. With an empty \<open>old\<close>, Python puts \<open>new\<close> before every
  character and at the end.
\<close>

function replace :: "string \<Rightarrow> string \<Rightarrow> string \<Rightarrow> string" where
  "replace old new s =
     (if old = [] then new @ concat (map (\<lambda>c. c # new) s)
      else if s = [] then []
      else if prefix old s then new @ replace old new (drop (length old) s)
      else hd s # replace old new (tl s))"
  by pat_completeness auto
termination
  by (relation "measure (\<lambda>(old, new, s). length s)") auto

declare replace.simps [simp del]

section \<open>The variables of a template\<close>

definition PREDEFINED_VARIABLES :: "string list" where
  "PREDEFINED_VARIABLES =
     [''task_instruction'', ''vocabulary_list'', ''grammar_reference'',
      ''communication_reference'', ''guiding_questions'', ''can_do_statements'']"

definition ALL_POSSIBLE_VARIABLES :: "string list" where
  "ALL_POSSIBLE_VARIABLES = PREDEFINED_VARIABLES @ [''student_answer'']"

text \<open>The placeholder of a variable: \<^verbatim>\<open>f"{{{{{var_key}}}}}"\<close>.\<close>

definition token :: "string \<Rightarrow> string" where
  "token k = ''{{'' @ k @ ''}}''"

text \<open>
  The replacement loop of \<^verbatim>\<open>generate_prompt_action\<close>, the same in both answer modes:
  \<^verbatim>\<open>
  for var_key, var_value in current_row_vars.items():
      if var_key in ALL_POSSIBLE_VARIABLES:
          current_filled_prompt = current_filled_prompt.replace(f"{{{{{var_key}}}}}", str(var_value))
  \<close>
\<close>

definition replace_step :: "(json \<Rightarrow> string) \<Rightarrow> string \<Rightarrow> string \<times> json \<Rightarrow> string" where
  "replace_step str_of p kv =
     (if fst kv \<in> set ALL_POSSIBLE_VARIABLES
      then replace (token (fst kv)) (py_str str_of (snd kv)) p else p)"

definition substitute :: "(json \<Rightarrow> string) \<Rightarrow> string \<Rightarrow> (string \<times> json) list \<Rightarrow> string" where
  "substitute str_of prompt_template row_vars = foldl (replace_step str_of) prompt_template row_vars"

section \<open>Finding the placeholders of a template\<close>

text \<open>
  \<^verbatim>\<open>re.findall(r"\{\{(.*?)\}\}", prompt_template)\<close>. After an opening \<^verbatim>\<open>{{\<close> the lazy group
  takes characters one at a time until \<^verbatim>\<open>}}\<close> follows; the dot does not match a newline, so
  the attempt fails when a newline comes first. \<open>scan_close\<close> returns the group and the text
  after the closing braces.
\<close>

fun scan_close :: "string \<Rightarrow> (string \<times> string) option" where
  "scan_close [] = None"
| "scan_close (c # cs) =
     (if prefix ''}}'' (c # cs) then Some ([], drop 2 (c # cs))
      else if c = CHR 0x0A then None
      else map_option (\<lambda>(u, r). (c # u, r)) (scan_close cs))"

text \<open>
  The scan tries every start position from the left; after a match it goes on behind the
  match, after a failed attempt at the next character.
\<close>

function findall :: "string \<Rightarrow> string list" where
  "findall s =
     (if s = [] then []
      else if prefix ''{{'' s then
        (case scan_close (drop 2 s) of
           Some (u, r) \<Rightarrow> u # findall r
         | None \<Rightarrow> findall (tl s))
      else findall (tl s))"
  by pat_completeness auto
termination
  apply (relation "measure length")
  subgoal by simp
  subgoal by simp
  subgoal for s x2 u r
  proof -
    assume found: "scan_close (drop 2 s) = Some x2" "(u, r) = x2"
    have "length r' < length x" if "scan_close x = Some (u', r')" for x u' r'
      using that by (induction x arbitrary: u' r') (auto split: if_splits)
    from this [of "drop 2 s" u r] found show "(r, s) \<in> measure length" by simp
  qed
  subgoal by simp
  done

declare findall.simps [simp del]

section \<open>Generating prompts\<close>

text \<open>
  What the user interface shows through \<^verbatim>\<open>st.info\<close>, \<^verbatim>\<open>st.warning\<close>, \<^verbatim>\<open>st.error\<close> and
  \<^verbatim>\<open>st.success\<close>. \<open>WarningNotPredefined S\<close> is the warning
  \<^verbatim>\<open>"Warning: The template uses variables not in the predefined list: " + ', '.join(S)\<close>,
  whose text lists the set \<open>S\<close> in the iteration order of a Python set.
\<close>

datatype message =
    Info string
  | Warning string
  | Error string
  | Success string
  | WarningNotPredefined "string set"

text \<open>
  The outcome of \<^verbatim>\<open>generate_prompt_action\<close>: the messages in the order they are shown and
  the column \<^verbatim>\<open>generated_prompt\<close> of \<^verbatim>\<open>final_prompts_generated_data\<close>.
\<close>

record generation =
  shown :: "message list"
  generated_prompt :: "string list"

definition all_vars_for_template :: "(string \<times> json) list \<Rightarrow> (string \<times> json) list" where
  "all_vars_for_template variable_values_from_fetch =
     map (\<lambda>key. (key, dict_get variable_values_from_fetch key (JStr []))) PREDEFINED_VARIABLES"

text \<open>One pass of the loop body of either mode: the row's dict, then the replacements.\<close>

definition fill :: "(json \<Rightarrow> string) \<Rightarrow> string \<Rightarrow> (string \<times> json) list \<Rightarrow> json \<Rightarrow> string" where
  "fill str_of prompt_template variable_values_from_fetch student_answer =
     substitute str_of prompt_template
       (dict_set (all_vars_for_template variable_values_from_fetch) ''student_answer'' student_answer)"

fun list_items :: "json \<Rightarrow> json list" where
  "list_items (JList xs) = xs"
| "list_items v = []"

fun dict_items :: "json \<Rightarrow> (string \<times> json) list" where
  "dict_items (JDict kvs) = kvs"
| "dict_items v = []"

text \<open>
  \<^verbatim>\<open>generate_prompt_action(prompt_template, variable_values_from_fetch, content_url,
  answers_input, answers_method)\<close>. The answers are a Python value: a string, a list or
  \<^verbatim>\<open>None\<close>. The rocket signs around the last message are left out of its text.
\<close>

definition generate_prompt_action ::
  "(json \<Rightarrow> string) \<Rightarrow> string \<Rightarrow> (string \<times> json) list \<Rightarrow> string \<Rightarrow> json \<Rightarrow> string \<Rightarrow> generation" where
  "generate_prompt_action str_of prompt_template variable_values_from_fetch content_url
       answers_input answers_method =
     (let template_vars_in_use = set (findall prompt_template);
          allowed_vars_set = set ALL_POSSIBLE_VARIABLES;
          non_allowed_vars = template_vars_in_use - allowed_vars_set;
          m0 = (if non_allowed_vars \<noteq> {} then [WarningNotPredefined non_allowed_vars] else []);
          (m1, final_prompts) =
            (if answers_method = ''Text Box (for a single answer)'' then
               (let current_student_answer =
                      (if truthy answers_input then answers_input else JStr [])
                in ((if \<not> truthy current_student_answer \<and> ''student_answer'' \<in> template_vars_in_use
                     then [Info ''Note: 'student_answer' is in the template, but no answer was provided in the text box.'']
                     else []),
                    [fill str_of prompt_template variable_values_from_fetch current_student_answer]))
             else if answers_method = ''Upload CSV (for multiple answers)'' then
               (if truthy answers_input \<and> isinstance_list answers_input then
                  ([], map (fill str_of prompt_template variable_values_from_fetch)
                         (list_items answers_input))
                else if \<not> truthy answers_input then
                  ([Warning ''CSV method selected, but no answers were processed from the CSV file for {{student_answer}}.''], [])
                else
                  ([Info ''No answers extracted from the CSV file for {{student_answer}}.''], []))
             else
               ([Error ''Invalid answer method selected or no answers provided for processing.''], []));
          m2 = (if final_prompts = []
                then [Info ''No prompts were generated. Check inputs and template.''] else [])
      in \<lparr>shown = m0 @ m1 @ m2
                 @ [Success ''Prompt processing complete! Review generated prompts above.''],
          generated_prompt = final_prompts\<rparr>)"

section \<open>Fetching the variables\<close>

text \<open>
  The exceptions the handlers of \<^verbatim>\<open>fetch_and_populate_variables_action\<close> tell apart, each
  with its text \<^verbatim>\<open>str(e)\<close>: \<^verbatim>\<open>requests.exceptions.RequestException\<close>,
  \<^verbatim>\<open>json.JSONDecodeError\<close>, \<^verbatim>\<open>KeyError\<close>, and any other \<^verbatim>\<open>Exception\<close>.
\<close>

datatype exn =
    RequestException string
  | JSONDecodeError string
  | KeyError string
  | OtherException string

text \<open>
  What the program reads of a response: the status, the text of the \<^verbatim>\<open>HTTPError\<close> that
  \<^verbatim>\<open>raise_for_status()\<close> builds for it, and the outcome of \<^verbatim>\<open>response.json()\<close>.
\<close>

record response =
  status_code :: nat
  http_error :: string
  json_body :: "exn + json"

text \<open>\<^verbatim>\<open>response.raise_for_status()\<close> raises for the statuses 4xx and 5xx.\<close>

definition raise_for_status :: "response \<Rightarrow> exn + unit" where
  "raise_for_status r =
     (if 400 \<le> status_code r \<and> status_code r < 600
      then Inl (RequestException (http_error r)) else Inr ())"

text \<open>The session state of the user interface (\<^verbatim>\<open>st.session_state\<close>).\<close>

record session =
  fetched_variable_values :: "(string \<times> json) list"
  single_answer :: string
  uploaded_csv_answers :: "string list option"
  last_uploaded_filename :: "string option"

definition quote :: string where
  "quote = [CHR 0x27]"

definition newline :: string where
  "newline = [CHR 0x0A]"

definition type_name :: "json \<Rightarrow> string" where
  "type_name v =
     (case v of JNull \<Rightarrow> ''NoneType'' | JBool b \<Rightarrow> ''bool'' | JInt i \<Rightarrow> ''int''
      | JFloat f \<Rightarrow> ''float'' | JStr s \<Rightarrow> ''str'' | JList xs \<Rightarrow> ''list'' | JDict kvs \<Rightarrow> ''dict'')"

text \<open>
  Lines 47 to 61: the first interaction gives \<^verbatim>\<open>task_instruction_val\<close> and
  \<^verbatim>\<open>can_do_statements_val\<close>. The result also holds the warning of the \<^verbatim>\<open>else\<close> branch.
\<close>

definition extract_interactions ::
  "(json \<Rightarrow> string) \<Rightarrow> (string \<times> json) list \<Rightarrow> json \<times> json \<times> message list" where
  "extract_interactions str_of activity_data =
     (let interactions = dict_get activity_data ''interactions'' (JList [])
      in if truthy interactions \<and> isinstance_list interactions
            \<and> length (list_items interactions) > 0 then
           (let interaction = hd (list_items interactions)
            in if isinstance_dict interaction then
                 (let task_instruction_val = dict_get (dict_items interaction) ''instruction'' (JStr []);
                      can_do_statement_list_raw =
                        dict_get (dict_items interaction) ''canDoStatement'' (JList [])
                  in if isinstance_list can_do_statement_list_raw then
                       (let can_do_statement_list =
                              map (\<lambda>stmt. dict_get (dict_items stmt) ''statement'' (JStr []))
                                (filter (\<lambda>stmt. isinstance_dict stmt
                                           \<and> truthy (dict_get (dict_items stmt) ''statement'' JNull))
                                   (list_items can_do_statement_list_raw))
                        in (task_instruction_val,
                            JStr (join newline (map (\<lambda>s. ''- '' @ py_str str_of s) can_do_statement_list)),
                            []))
                     else (task_instruction_val, JStr [], []))
               else (JStr [], JStr [], []))
         else (JStr [], JStr [],
               [Warning ''Could not find 'interactions' array or it's empty/invalid in the JSON response.'']))"

text \<open>
  Lines 67 to 79: the body of the loop over \<^verbatim>\<open>reference_screens\<close>, on the three variables
  the loop assigns: \<^verbatim>\<open>vocabulary_items_list\<close>, \<^verbatim>\<open>grammar_reference_val\<close> and
  \<^verbatim>\<open>communication_reference_val\<close>.
\<close>

definition reference_step ::
  "(json \<Rightarrow> string) \<Rightarrow> string list \<times> json \<times> json \<Rightarrow> json \<Rightarrow> string list \<times> json \<times> json" where
  "reference_step str_of acc ref =
     (case acc of (vocabulary_items_list, grammar_reference_val, communication_reference_val) \<Rightarrow>
        if isinstance_dict ref then
          (let category = dict_get (dict_items ref) ''category'' JNull;
               contents = dict_get (dict_items ref) ''contents'' JNull
           in if isinstance_dict contents then
                (if category = JStr ''vocabulary'' then
                   (let vocab_list_from_json = dict_get (dict_items contents) ''vocabularyList'' (JList [])
                    in if isinstance_list vocab_list_from_json then
                         (vocabulary_items_list
                            @ map (py_str str_of) (filter truthy (list_items vocab_list_from_json)),
                          grammar_reference_val, communication_reference_val)
                       else acc)
                 else if category = JStr ''grammar'' then
                   (vocabulary_items_list,
                    dict_get (dict_items contents) ''reference'' (JStr []),
                    communication_reference_val)
                 else if category = JStr ''communication'' then
                   (vocabulary_items_list, grammar_reference_val,
                    dict_get (dict_items contents) ''reference'' (JStr []))
                 else acc)
              else acc)
        else acc)"

text \<open>
  Lines 64 to 83: \<^verbatim>\<open>vocabulary_list_str\<close>, \<^verbatim>\<open>grammar_reference_val\<close>,
  \<^verbatim>\<open>communication_reference_val\<close> and the warning of the \<^verbatim>\<open>else\<close> branch.
\<close>

definition extract_reference_screens ::
  "(json \<Rightarrow> string) \<Rightarrow> (string \<times> json) list \<Rightarrow> json \<times> json \<times> json \<times> message list" where
  "extract_reference_screens str_of activity_data =
     (let reference_screens = dict_get activity_data ''referenceScreens'' (JList [])
      in if isinstance_list reference_screens then
           (case foldl (reference_step str_of) ([], JStr [], JStr []) (list_items reference_screens) of
              (vocabulary_items_list, grammar_reference_val, communication_reference_val) \<Rightarrow>
                (JStr (if vocabulary_items_list \<noteq> [] then join '', '' vocabulary_items_list else []),
                 grammar_reference_val, communication_reference_val, []))
         else (JStr [], JStr [], JStr [],
               [Warning ''Could not find 'referenceScreens' array in the JSON response or it's not a list.'']))"

text \<open>Lines 93 to 97: the inner loop over the items of one secondary screen.\<close>

definition secondary_item_step :: "(json \<Rightarrow> string) \<Rightarrow> string list \<Rightarrow> json \<Rightarrow> string list" where
  "secondary_item_step str_of guiding_questions_list_raw item =
     (if isinstance_dict item then
        (let question_text = dict_get (dict_items item) ''secondaryContent'' JNull
         in if truthy question_text
            then guiding_questions_list_raw @ [py_str str_of question_text]
            else guiding_questions_list_raw)
      else guiding_questions_list_raw)"

text \<open>Lines 89 to 97: the loop body for one secondary screen.\<close>

definition secondary_screen_step :: "(json \<Rightarrow> string) \<Rightarrow> string list \<Rightarrow> json \<Rightarrow> string list" where
  "secondary_screen_step str_of guiding_questions_list_raw screen =
     (if isinstance_dict screen then
        (let secondary_content_items = dict_get (dict_items screen) ''contents'' (JList [])
         in if isinstance_list secondary_content_items
            then foldl (secondary_item_step str_of) guiding_questions_list_raw
                   (list_items secondary_content_items)
            else guiding_questions_list_raw)
      else guiding_questions_list_raw)"

text \<open>Lines 86 to 101: \<^verbatim>\<open>guiding_questions_val\<close> and the warning of the \<^verbatim>\<open>else\<close> branch.\<close>

definition extract_secondary_screens ::
  "(json \<Rightarrow> string) \<Rightarrow> (string \<times> json) list \<Rightarrow> json \<times> message list" where
  "extract_secondary_screens str_of activity_data =
     (let secondary_screens = dict_get activity_data ''secondaryScreens'' (JList [])
      in if isinstance_list secondary_screens then
           (let guiding_questions_list_raw =
                  foldl (secondary_screen_step str_of) [] (list_items secondary_screens)
            in (JStr (if guiding_questions_list_raw \<noteq> []
                      then join newline (map (\<lambda>q. ''- '' @ q) guiding_questions_list_raw) else []),
                []))
         else (JStr [],
               [Warning ''Could not find 'secondaryScreens' array in the JSON response or it's not a list.'']))"

text \<open>
  Lines 38 to 111, the body of the \<^verbatim>\<open>try\<close> after the response was parsed. A document
  that is not a dict has no method \<^verbatim>\<open>get\<close>: line 47 raises \<^verbatim>\<open>AttributeError\<close>, before
  anything is stored. Otherwise the six values are stored, in the order of lines 104 to 109,
  into the dict the caller has reset.
\<close>

definition populate ::
  "(json \<Rightarrow> string) \<Rightarrow> json \<Rightarrow> (string \<times> json) list \<Rightarrow> exn + (string \<times> json) list \<times> message list" where
  "populate str_of activity_data values =
     (if \<not> isinstance_dict activity_data then
        Inl (OtherException (quote @ type_name activity_data @ quote @ '' object has no attribute 'get'' @ quote))
      else
        (case extract_interactions str_of (dict_items activity_data) of
           (task_instruction_val, can_do_statements_val, w1) \<Rightarrow>
        (case extract_reference_screens str_of (dict_items activity_data) of
           (vocabulary_list_str, grammar_reference_val, communication_reference_val, w2) \<Rightarrow>
        (case extract_secondary_screens str_of (dict_items activity_data) of
           (guiding_questions_val, w3) \<Rightarrow>
          Inr (dict_set (dict_set (dict_set (dict_set (dict_set (dict_set values
                 ''task_instruction'' task_instruction_val)
                 ''vocabulary_list'' vocabulary_list_str)
                 ''grammar_reference'' grammar_reference_val)
                 ''communication_reference'' communication_reference_val)
                 ''guiding_questions'' guiding_questions_val)
                 ''can_do_statements'' can_do_statements_val,
               w1 @ w2 @ w3 @ [Success ''Successfully fetched and processed data from URL.''])))))"

text \<open>The four \<^verbatim>\<open>except\<close> clauses, lines 114 to 121.\<close>

definition handler :: "exn \<Rightarrow> message" where
  "handler e =
     (case e of
        RequestException m \<Rightarrow> Error (''Error fetching URL: '' @ m)
      | JSONDecodeError m \<Rightarrow> Error (''Error parsing JSON response: '' @ m)
      | KeyError m \<Rightarrow>
          Error (''Error accessing expected key in JSON data: '' @ m @ ''. Please check JSON structure.'')
      | OtherException m \<Rightarrow> Error (''An unexpected error occurred during fetch: '' @ m))"

text \<open>Lines 124 to 128: after a failure, a missing or \<^verbatim>\<open>None\<close> value becomes the empty string.\<close>

definition ensure_initialized :: "(string \<times> json) list \<Rightarrow> string \<Rightarrow> (string \<times> json) list" where
  "ensure_initialized values var_name =
     (if var_name \<notin> fst ` set values then dict_set values var_name (JStr [])
      else if dict_get values var_name JNull = JNull then dict_set values var_name (JStr [])
      else values)"

text \<open>Lines 34 to 36: the request, the status check and the parse, each of which may raise.\<close>

definition fetch_json :: "(string \<Rightarrow> exn + response) \<Rightarrow> string \<Rightarrow> exn + json" where
  "fetch_json requests_get content_url =
     (case requests_get content_url of
        Inl e \<Rightarrow> Inl e
      | Inr r \<Rightarrow>
          (case raise_for_status r of
             Inl e \<Rightarrow> Inl e
           | Inr u \<Rightarrow> json_body r))"

text \<open>
  \<^verbatim>\<open>fetch_and_populate_variables_action(content_url)\<close>: the value returned, the session
  state afterwards and the messages shown. \<open>requests_get\<close> is the outcome of
  \<^verbatim>\<open>requests.get(content_url, timeout=10)\<close>.
\<close>

definition fetch_and_populate_variables_action ::
  "(json \<Rightarrow> string) \<Rightarrow> (string \<Rightarrow> exn + response) \<Rightarrow> string \<Rightarrow> session
     \<Rightarrow> bool \<times> session \<times> message list" where
  "fetch_and_populate_variables_action str_of requests_get content_url st =
     (let st0 = st\<lparr>fetched_variable_values := map (\<lambda>var. (var, JStr [])) PREDEFINED_VARIABLES\<rparr>
      in if content_url = [] then
           (False, st0, [Warning ''Please enter a Content URL to fetch variables.''])
         else
           (let m0 = Info (''Fetching data from: '' @ content_url @ ''...'');
                attempt =
                  (case fetch_json requests_get content_url of
                     Inl e \<Rightarrow> Inl e
                   | Inr activity_data \<Rightarrow>
                       populate str_of activity_data (fetched_variable_values st0))
            in case attempt of
                 Inr (values, ms) \<Rightarrow> (True, st0\<lparr>fetched_variable_values := values\<rparr>, m0 # ms)
               | Inl e \<Rightarrow>
                   (False,
                    st0\<lparr>fetched_variable_values :=
                          foldl ensure_initialized (fetched_variable_values st0) PREDEFINED_VARIABLES\<rparr>,
                    [m0, handler e])))"

section \<open>Loading the answers of a batch\<close>

text \<open>\<^verbatim>\<open>str(n)\<close> for a length.\<close>

fun digit :: "nat \<Rightarrow> char" where
  "digit n = (''0123456789'' ! (n mod 10))"

function str_nat :: "nat \<Rightarrow> string" where
  "str_nat n = (if n < 10 then [digit n] else str_nat (n div 10) @ [digit n])"
  by pat_completeness auto
termination
  by (relation "measure id") auto

declare str_nat.simps [simp del]

text \<open>
  The uploaded file: its name and the outcome of \<^verbatim>\<open>pd.read_csv\<close>, either the text of the
  exception raised or the columns of the table, each a header with its cells.
\<close>

record 'c uploaded_file =
  name :: string
  read_csv :: "string + (string \<times> 'c list) list"

text \<open>
  The branch \<^verbatim>\<open>else: # Upload CSV\<close> of \<^verbatim>\<open>run_ui\<close>, lines 386 to 420, for the content of
  the uploader (\<open>None\<close> when it is empty). \<open>cell_str\<close> renders a cell as
  \<^verbatim>\<open>astype(str)\<close> does.
\<close>

definition upload_csv ::
  "('c \<Rightarrow> string) \<Rightarrow> 'c uploaded_file option \<Rightarrow> session \<Rightarrow> session \<times> message list" where
  "upload_csv cell_str uploaded st =
     (let (st1, ms) =
        (case uploaded of
           Some f \<Rightarrow>
             if Some (name f) \<noteq> last_uploaded_filename st then
               (let st' = st\<lparr>last_uploaded_filename := Some (name f)\<rparr>
                in case read_csv f of
                     Inr df \<Rightarrow>
                       if ''Answers'' \<in> fst ` set df then
                         (let answers = map cell_str (dict_get df ''Answers'' [])
                          in (st'\<lparr>uploaded_csv_answers := Some answers\<rparr>,
                              [Success (''Successfully read '' @ str_nat (length answers)
                                        @ '' answers from '' @ quote @ name f @ quote @ ''.'')]))
                       else
                         (st'\<lparr>uploaded_csv_answers := None, last_uploaded_filename := None\<rparr>,
                          [Error ''CSV file is missing the required 'Answers' column. Please check the header.''])
                   | Inl e \<Rightarrow>
                       (st'\<lparr>uploaded_csv_answers := None, last_uploaded_filename := None\<rparr>,
                        [Error (''Error processing CSV file: '' @ e)]))
             else if uploaded_csv_answers st \<noteq> None \<and> uploaded_csv_answers st \<noteq> Some [] then
               (st, [Info (''Using previously uploaded file: '' @ quote
                           @ the (last_uploaded_filename st) @ quote
                           @ ''. Contains '' @ str_nat (length (the (uploaded_csv_answers st)))
                           @ '' answers.'')])
             else (st, [])
         | None \<Rightarrow>
             if last_uploaded_filename st \<noteq> None then
               (st\<lparr>uploaded_csv_answers := None, last_uploaded_filename := None\<rparr>,
                [Info ''CSV uploader is empty. Any previously uploaded CSV data has been cleared.''])
             else (st, []))
      in (if single_answer st1 \<noteq> [] then st1\<lparr>single_answer := []\<rparr> else st1, ms))"

section \<open>The reference screens, as the specification describes them\<close>

text \<open>
  The specification describes the outcome of the loop over \<^verbatim>\<open>referenceScreens\<close> by the
  entries of the list: the vocabulary items of the entries of category \<^verbatim>\<open>"vocabulary"\<close>,
  and the \<^verbatim>\<open>reference\<close> of the last entry of category \<^verbatim>\<open>"grammar"\<close> or
  \<^verbatim>\<open>"communication"\<close>. \<open>collected_vocabulary\<close> and \<open>entries_of_category\<close> follow that
  description. \<open>matching_entries\<close> is narrower than the description: it keeps the entries of
  a category whose \<^verbatim>\<open>contents\<close> is an object, which are the entries the loop of the program
  acts on.
\<close>

definition category_of :: "json \<Rightarrow> json" where
  "category_of ref = dict_get (dict_items ref) ''category'' JNull"

definition contents_of :: "json \<Rightarrow> json" where
  "contents_of ref = dict_get (dict_items ref) ''contents'' JNull"

definition vocabulary_items :: "(json \<Rightarrow> string) \<Rightarrow> json \<Rightarrow> string list" where
  "vocabulary_items str_of ref =
     map (py_str str_of)
       (filter truthy (list_items (dict_get (dict_items (contents_of ref)) ''vocabularyList'' (JList []))))"

definition collected_vocabulary :: "(json \<Rightarrow> string) \<Rightarrow> json list \<Rightarrow> string list" where
  "collected_vocabulary str_of screens =
     concat (map (vocabulary_items str_of)
               (filter (\<lambda>ref. category_of ref = JStr ''vocabulary'') screens))"

definition entries_of_category :: "string \<Rightarrow> json list \<Rightarrow> json list" where
  "entries_of_category category screens = filter (\<lambda>ref. category_of ref = JStr category) screens"

definition matching_entries :: "string \<Rightarrow> json list \<Rightarrow> json list" where
  "matching_entries category screens =
     filter (\<lambda>ref. category_of ref = JStr category \<and> isinstance_dict (contents_of ref)) screens"

definition reference_of :: "json \<Rightarrow> json" where
  "reference_of ref = dict_get (dict_items (contents_of ref)) ''reference'' (JStr [])"

definition last_reference :: "string \<Rightarrow> json \<Rightarrow> json list \<Rightarrow> json" where
  "last_reference category init screens =
     (if matching_entries category screens = [] then init
      else reference_of (last (matching_entries category screens)))"

section \<open>Braces in names and placeholders\<close>

text \<open>
  The names of the variables are not empty and hold no brace; the proofs about placeholders
  count the braces of a text.
\<close>

definition plain_name :: "string \<Rightarrow> bool" where
  "plain_name n = (n \<noteq> [] \<and> CHR ''{'' \<notin> set n \<and> CHR ''}'' \<notin> set n)"

definition opens :: "string \<Rightarrow> nat" where
  "opens s = length (filter (\<lambda>c. c = CHR ''{'') s)"

definition closes :: "string \<Rightarrow> nat" where
  "closes s = length (filter (\<lambda>c. c = CHR ''}'') s)"

section \<open>Replacing a text\<close>

lemma replace_Nil: "old \<noteq> [] \<Longrightarrow> replace old new [] = []"
  by (simp add: replace.simps)

lemma replace_prefix:
  "old \<noteq> [] \<Longrightarrow> prefix old s \<Longrightarrow> replace old new s = new @ replace old new (drop (length old) s)"
  by (subst replace.simps) auto

lemma replace_Cons:
  "old \<noteq> [] \<Longrightarrow> \<not> prefix old (c # cs) \<Longrightarrow> replace old new (c # cs) = c # replace old new cs"
  by (subst replace.simps) auto

lemma replace_absent: "\<not> sublist old s \<Longrightarrow> replace old new s = s"
proof (induction s)
  case Nil
  then show ?case by (auto simp: replace_Nil)
next
  case (Cons c cs)
  then have "old \<noteq> []" by auto
  moreover from Cons.prems have "\<not> prefix old (c # cs)" "\<not> sublist old cs"
    by (auto simp: sublist_Cons_right)
  ultimately show ?case using Cons.IH by (simp add: replace_Cons)
qed

lemma replace_skip:
  assumes "old \<noteq> []" and "\<And>t'. t' \<noteq> [] \<Longrightarrow> suffix t' t \<Longrightarrow> \<not> prefix old (t' @ b)"
  shows "replace old new (t @ b) = t @ replace old new b"
  using assms(2)
proof (induction t)
  case Nil
  then show ?case by simp
next
  case (Cons c t)
  have "\<not> prefix old ((c # t) @ b)" using Cons.prems[of "c # t"] by simp
  moreover have "replace old new (t @ b) = t @ replace old new b"
    using Cons.prems by (intro Cons.IH) (auto simp: suffix_Cons)
  ultimately show ?case using assms(1) by (simp add: replace_Cons)
qed

lemma replace_around:
  assumes ne: "old \<noteq> []"
    and left: "\<And>a b. a \<noteq> [] \<Longrightarrow> prefix old (a @ T @ b) \<Longrightarrow> prefix old a"
    and right: "\<And>t' b. t' \<noteq> [] \<Longrightarrow> suffix t' T \<Longrightarrow> \<not> prefix old (t' @ b)"
  shows "replace old new (a @ T @ b) = replace old new a @ T @ replace old new b"
proof (induction a rule: length_induct)
  case (1 a)
  show ?case
  proof (cases a)
    case Nil
    then show ?thesis using replace_skip[OF ne, of T b new] right by (simp add: replace_Nil ne)
  next
    case (Cons c cs)
    show ?thesis
    proof (cases "prefix old a")
      case True
      then have p: "prefix old (a @ T @ b)" by (simp add: prefix_append)
      from True have len: "length old \<le> length a" by (simp add: prefix_length_le)
      have "length (drop (length old) a) < length a" using ne Cons by simp
      then have "replace old new (drop (length old) a @ T @ b)
                 = replace old new (drop (length old) a) @ T @ replace old new b"
        using 1 by blast
      then show ?thesis using True p len ne by (simp add: replace_prefix)
    next
      case False
      then have "\<not> prefix old (a @ T @ b)" using left[of a b] Cons by auto
      moreover have "replace old new (cs @ T @ b) = replace old new cs @ T @ replace old new b"
        using 1 Cons by simp
      ultimately show ?thesis using False Cons ne by (simp add: replace_Cons)
    qed
  qed
qed

lemma replace_inserts:
  assumes "old \<noteq> []" "sublist old s"
  shows "sublist new (replace old new s)"
  using assms(2)
proof (induction s rule: length_induct)
  case (1 s)
  show ?case
  proof (cases "prefix old s")
    case True
    then show ?thesis using assms(1) by (simp add: replace_prefix)
  next
    case False
    with 1(2) obtain c cs where s: "s = c # cs" and "sublist old cs"
      by (cases s) (auto simp: sublist_Cons_right)
    then have "sublist new (replace old new cs)" using 1 by simp
    then show ?thesis using False s assms(1) by (simp add: replace_Cons sublist_Cons_right)
  qed
qed

section \<open>Placeholders do not overlap\<close>

lemma opens_append: "opens (a @ b) = opens a + opens b"
  by (simp add: opens_def)

lemma closes_append: "closes (a @ b) = closes a + closes b"
  by (simp add: closes_def)

lemma opens_token: "plain_name n \<Longrightarrow> opens (token n) = 2"
  by (auto simp: opens_def token_def plain_name_def filter_empty_conv)

lemma closes_token: "plain_name n \<Longrightarrow> closes (token n) = 2"
  by (auto simp: closes_def token_def plain_name_def filter_empty_conv)

lemma token_left:
  assumes "plain_name n" "prefix ''{{'' T" "a \<noteq> []" "prefix (token n) (a @ T @ b)"
  shows "prefix (token n) a"
proof (rule ccontr)
  assume np: "\<not> prefix (token n) a"
  with assms(4) obtain us where W: "token n = a @ us" and us: "prefix us (T @ b)"
    by (auto simp: prefix_append)
  from np W have ne: "us \<noteq> []" by auto
  from assms(2) obtain T' where T: "T = CHR ''{'' # CHR ''{'' # T'"
    by (auto simp: prefix_def)
  from W assms(3) have "hd a = CHR ''{''"
    by (cases a) (auto simp: token_def)
  with assms(3) have oa: "opens a \<ge> 1"
    by (cases a) (auto simp: opens_def)
  from W ne have "last us = last (token n)" by simp
  then have lu: "last us = CHR ''}''" by (simp add: token_def)
  from us ne T consider "us = [CHR ''{'']" | us' where "us = CHR ''{'' # CHR ''{'' # us'"
    by (cases us; cases "tl us") (auto simp: prefix_Cons)
  then show False
  proof cases
    case 1
    with lu show ?thesis by simp
  next
    case 2
    then have "opens us \<ge> 2" by (simp add: opens_def)
    with oa have "opens (a @ us) \<ge> 3" by (simp add: opens_append)
    with W opens_token[OF assms(1)] show ?thesis by simp
  qed
qed

lemma token_right:
  assumes "plain_name n" "suffix ''}}'' T" "\<not> sublist (token n) T" "t' \<noteq> []" "suffix t' T"
  shows "\<not> prefix (token n) (t' @ b)"
proof
  assume p: "prefix (token n) (t' @ b)"
  have "\<not> prefix (token n) t'"
    using assms(3,5) by (auto simp: sublist_altdef')
  with p obtain us where W: "token n = t' @ us" and "prefix us b" and ne: "us \<noteq> []"
    by (auto simp: prefix_append)
  from W assms(4) have ht: "hd t' = CHR ''{''"
    by (cases t') (auto simp: token_def)
  from assms(2) obtain T' where T: "T = T' @ ''}}''" by (auto simp: suffix_def)
  from assms(5) obtain q where q: "T = q @ t'" by (auto simp: suffix_def)
  have "suffix ''}}'' t'"
  proof (cases t' rule: rev_cases)
    case Nil
    with assms(4) show ?thesis by simp
  next
    case (snoc r x)
    note s1 = snoc
    show ?thesis
    proof (cases r rule: rev_cases)
      case Nil
      with s1 T q ht have "x = CHR ''}''" "x = CHR ''{''" by auto
      then show ?thesis by simp
    next
      case (snoc r' y)
      with s1 T q have "y = CHR ''}''" "x = CHR ''}''" by auto
      with s1 snoc show ?thesis by (simp add: suffix_def)
    qed
  qed
  then have "closes t' \<ge> 2" by (auto simp: suffix_def closes_def)
  moreover from W ne have "last us = last (token n)" by simp
  then have "last us = CHR ''}''" by (simp add: token_def)
  with ne have "closes us \<ge> 1" by (cases us rule: rev_cases) (auto simp: closes_def)
  ultimately have "closes (t' @ us) \<ge> 3" by (simp add: closes_append)
  with W closes_token[OF assms(1)] show False by simp
qed

lemma replace_token_around:
  assumes "plain_name n" "prefix ''{{'' T" "suffix ''}}'' T" "\<not> sublist (token n) T"
  shows "replace (token n) new (a @ T @ b) = replace (token n) new a @ T @ replace (token n) new b"
proof (rule replace_around)
  show "token n \<noteq> []" by (simp add: token_def)
qed (use assms token_left token_right in blast)+

lemma replace_token_keeps:
  assumes "plain_name n" "prefix ''{{'' T" "suffix ''}}'' T" "\<not> sublist (token n) T" "sublist T s"
  shows "sublist T (replace (token n) new s)"
proof -
  from assms(5) obtain a b where "s = a @ T @ b" by (auto simp: sublist_def)
  then show ?thesis using replace_token_around[OF assms(1-4)] by simp
qed

lemma token_sublist_token:
  assumes "plain_name n" "plain_name m" "sublist (token n) (token m)"
  shows "n = m"
proof -
  from assms(3) obtain p q where eq: "token m = p @ token n @ q" by (auto simp: sublist_def)
  have "opens (token m) = opens p + opens (token n) + opens q"
    by (simp add: eq opens_append)
  then have op: "opens p = 0" using opens_token assms(1,2) by simp
  have "closes (token m) = closes p + closes (token n) + closes q"
    by (simp add: eq closes_append)
  then have cq: "closes q = 0" using closes_token assms(1,2) by simp
  have "p = []"
  proof (cases p)
    case (Cons c cs)
    with eq have "c = CHR ''{''" by (simp add: token_def)
    with Cons op show ?thesis by (simp add: opens_def)
  qed simp
  moreover have "q = []"
  proof (cases q rule: rev_cases)
    case (snoc r x)
    with eq have "last (token m) = x" by simp
    then have "x = CHR ''}''" by (simp add: token_def)
    with snoc cq show ?thesis by (simp add: closes_def)
  qed simp
  ultimately show ?thesis using eq by (simp add: token_def)
qed

section \<open>The replacement loop and the scan for placeholders\<close>

lemma plain_all: "k \<in> set ALL_POSSIBLE_VARIABLES \<Longrightarrow> plain_name k"
  by (auto simp: ALL_POSSIBLE_VARIABLES_def PREDEFINED_VARIABLES_def plain_name_def)

lemma row_vars_eq:
  "dict_set (all_vars_for_template vars) ''student_answer'' a
     = all_vars_for_template vars @ [(''student_answer'', a)]"
  by (simp add: all_vars_for_template_def PREDEFINED_VARIABLES_def)

lemma substitute_append:
  "substitute str_of s (r1 @ r2) = substitute str_of (substitute str_of s r1) r2"
  by (simp add: substitute_def)

lemma substitute_Cons:
  "substitute str_of s (kv # r) = substitute str_of (replace_step str_of s kv) r"
  by (simp add: substitute_def)

lemma substitute_Nil: "substitute str_of s [] = s"
  by (simp add: substitute_def)

lemma fill_last:
  "fill str_of t vars a
     = replace (token ''student_answer'') (py_str str_of a)
         (substitute str_of t (all_vars_for_template vars))"
  by (simp add: fill_def row_vars_eq substitute_append substitute_Cons substitute_Nil
        replace_step_def ALL_POSSIBLE_VARIABLES_def)

lemma substitute_absent:
  "(\<And>k. k \<in> set ALL_POSSIBLE_VARIABLES \<Longrightarrow> \<not> sublist (token k) s)
     \<Longrightarrow> substitute str_of s row = s"
  by (induction row) (auto simp: substitute_Cons substitute_Nil replace_step_def replace_absent)

lemma substitute_keeps:
  assumes "prefix ''{{'' T" "suffix ''}}'' T"
    and "\<And>k. k \<in> fst ` set row \<Longrightarrow> k \<in> set ALL_POSSIBLE_VARIABLES \<Longrightarrow> \<not> sublist (token k) T"
    and "sublist T s"
  shows "sublist T (substitute str_of s row)"
  using assms(3,4)
proof (induction row arbitrary: s)
  case Nil
  then show ?case by (simp add: substitute_Nil)
next
  case (Cons kv row)
  have "sublist T (replace_step str_of s kv)"
  proof (cases "fst kv \<in> set ALL_POSSIBLE_VARIABLES")
    case True
    then have "plain_name (fst kv)" "\<not> sublist (token (fst kv)) T"
      using Cons.prems(1)[of "fst kv"] by (auto simp: plain_all)
    then show ?thesis
      using True Cons.prems(2) assms(1,2) by (simp add: replace_step_def replace_token_keeps)
  next
    case False
    then show ?thesis using Cons.prems(2) by (simp add: replace_step_def)
  qed
  then show ?case using Cons.IH Cons.prems(1) by (simp add: substitute_Cons)
qed

lemma token_nonempty: "token k \<noteq> []"
  by (simp add: token_def)

lemma token_delimited: "prefix ''{{'' (token k)" "suffix ''}}'' (token k)"
  by (simp_all add: token_def suffix_def)

lemma scan_close_decomp: "scan_close x = Some (u, r) \<Longrightarrow> x = u @ ''}}'' @ r"
proof (induction x arbitrary: u r)
  case Nil
  then show ?case by simp
next
  case (Cons c cs)
  show ?case
  proof (cases "prefix ''}}'' (c # cs)")
    case True
    then show ?thesis using Cons.prems by (auto simp: prefix_def)
  next
    case False
    then show ?thesis using Cons by (auto split: if_splits)
  qed
qed

lemma findall_sublist: "u \<in> set (findall s) \<Longrightarrow> sublist (token u) s"
proof (induction s rule: findall.induct)
  case (1 s)
  show ?case
  proof (cases "s = []")
    case True
    then show ?thesis using "1.prems" by (simp add: findall.simps)
  next
    case ne: False
    show ?thesis
    proof (cases "prefix ''{{'' s")
      case p: True
      show ?thesis
      proof (cases "scan_close (drop 2 s)")
        case None
        then have "u \<in> set (findall (tl s))" using "1.prems" ne p by (subst (asm) findall.simps) simp
        then have "sublist (token u) (tl s)" using "1.IH" ne p None by auto
        then show ?thesis using ne by (cases s) (auto simp: sublist_Cons_right)
      next
        case (Some ur)
        obtain u' r where ur: "ur = (u', r)" by (cases ur)
        from Some ur have d: "drop 2 s = u' @ ''}}'' @ r" using scan_close_decomp by blast
        from p have s: "s = ''{{'' @ drop 2 s" by (auto simp: prefix_def)
        have "findall s = u' # findall r" using ne p Some ur by (subst findall.simps) simp
        with "1.prems" consider "u = u'" | "u \<in> set (findall r)" by auto
        then show ?thesis
        proof cases
          case 1
          have "s = [] @ token u @ r" using s d 1 by (simp add: token_def)
          then show ?thesis unfolding sublist_def by blast
        next
          case 2
          then have "sublist (token u) r" using "1.IH" ne p Some ur by auto
          then obtain a b where "r = a @ token u @ b" by (auto simp: sublist_def)
          then have "s = (''{{'' @ u' @ ''}}'' @ a) @ token u @ b" using s d by simp
          then show ?thesis unfolding sublist_def by blast
        qed
      qed
    next
      case False
      then have "u \<in> set (findall (tl s))" using "1.prems" ne by (subst (asm) findall.simps) simp
      then have "sublist (token u) (tl s)" using "1.IH" ne False by auto
      then show ?thesis using ne by (cases s) (auto simp: sublist_Cons_right)
    qed
  qed
qed

lemma scan_close_finds:
  "CHR 0x0A \<notin> set n \<Longrightarrow> scan_close (n @ ''}}'' @ r) \<noteq> None"
  by (induction n) auto

lemma findall_empty:
  assumes "findall s = []" "CHR 0x0A \<notin> set n"
  shows "\<not> sublist (token n) s"
  using assms(1)
proof (induction s)
  case Nil
  then show ?case by (simp add: token_def)
next
  case (Cons c cs)
  have np: "\<not> prefix (token n) (c # cs)"
  proof
    assume "prefix (token n) (c # cs)"
    then obtain r where r: "c # cs = ''{{'' @ n @ ''}}'' @ r" by (auto simp: prefix_def token_def)
    then have "scan_close (drop 2 (c # cs)) \<noteq> None" using scan_close_finds[OF assms(2)] by simp
    moreover have "prefix ''{{'' (c # cs)" using r by (simp add: prefix_def)
    ultimately have "findall (c # cs) \<noteq> []" by (subst findall.simps) auto
    with Cons.prems show False by simp
  qed
  have "findall cs = []"
    using Cons.prems by (subst (asm) findall.simps) (auto split: if_splits option.splits)
  then show ?case using Cons.IH np by (simp add: sublist_Cons_right)
qed

lemma no_newline_all: "k \<in> set ALL_POSSIBLE_VARIABLES \<Longrightarrow> CHR 0x0A \<notin> set k"
  by (auto simp: ALL_POSSIBLE_VARIABLES_def PREDEFINED_VARIABLES_def)

lemma generated_single:
  "generated_prompt (generate_prompt_action str_of t vars url a ''Text Box (for a single answer)'')
     = [fill str_of t vars (if truthy a then a else JStr [])]"
  by (simp add: generate_prompt_action_def Let_def)

lemma generated_batch:
  "generated_prompt (generate_prompt_action str_of t vars url (JList xs) ''Upload CSV (for multiple answers)'')
     = map (fill str_of t vars) xs"
  by (simp add: generate_prompt_action_def Let_def)

lemma generated_are_fills:
  "p \<in> set (generated_prompt (generate_prompt_action str_of t vars url ai m))
     \<Longrightarrow> \<exists>a. p = fill str_of t vars a"
  by (auto simp: generate_prompt_action_def Let_def split: if_splits)

lemma shown_warning:
  "set (findall t) - set ALL_POSSIBLE_VARIABLES \<noteq> {} \<Longrightarrow>
   hd (shown (generate_prompt_action str_of t vars url ai m))
     = WarningNotPredefined (set (findall t) - set ALL_POSSIBLE_VARIABLES)"
  by (simp add: generate_prompt_action_def Let_def split: prod.splits)

lemma map_fst_row:
  "map fst (dict_set (all_vars_for_template vars) ''student_answer'' a) = ALL_POSSIBLE_VARIABLES"
  unfolding row_vars_eq by (simp add: all_vars_for_template_def ALL_POSSIBLE_VARIABLES_def comp_def)

lemma distinct_all: "distinct ALL_POSSIBLE_VARIABLES"
  by (simp add: ALL_POSSIBLE_VARIABLES_def PREDEFINED_VARIABLES_def)

lemma dict_get_found:
  "k \<notin> fst ` set r1 \<Longrightarrow> dict_get (r1 @ (k, v) # r2) k d = v"
  by (simp add: dict_get_def map_add_def map_of_eq_None_iff[THEN iffD2] split: option.splits)

lemma substitute_inserted:
  assumes keys: "map fst row = pre @ k # post"
    and dist: "distinct (map fst row)"
    and allowed: "set (map fst row) \<subseteq> set ALL_POSSIBLE_VARIABLES"
    and j: "j \<in> set pre \<union> {k}"
    and k_in: "sublist (token k) s"
    and j_in: "sublist (token j) (py_str str_of (dict_get row k d))"
  shows "sublist (token j) (substitute str_of s row)"
proof -
  from keys obtain r1 kv r2 where row: "row = r1 @ kv # r2"
    and r1: "map fst r1 = pre" and kv: "fst kv = k" and r2: "map fst r2 = post"
    by (auto simp: map_eq_append_conv map_eq_Cons_conv)
  obtain v where kv': "kv = (k, v)" using kv by (cases kv) auto
  from dist keys have k_pre: "k \<notin> set pre" and k_post: "k \<notin> set post"
    and disj: "set pre \<inter> set post = {}" by auto
  have k_all: "k \<in> set ALL_POSSIBLE_VARIABLES" using allowed keys by auto
  have j_all: "j \<in> set ALL_POSSIBLE_VARIABLES" using allowed keys j by auto
  have v: "dict_get row k d = v"
    unfolding row kv' by (rule dict_get_found) (use k_pre r1 in force)
  have "sublist (token k) (substitute str_of s r1)"
  proof (rule substitute_keeps[OF token_delimited _ k_in])
    fix k' assume 1: "k' \<in> fst ` set r1" and 2: "k' \<in> set ALL_POSSIBLE_VARIABLES"
    from 1 r1 have "k' \<in> set pre" by force
    with k_pre have "k' \<noteq> k" by auto
    then show "\<not> sublist (token k') (token k)"
      using token_sublist_token plain_all 2 k_all by blast
  qed
  then have "sublist (py_str str_of v) (replace_step str_of (substitute str_of s r1) (k, v))"
    using k_all by (simp add: replace_step_def replace_inserts token_def)
  with j_in v have mid: "sublist (token j) (replace_step str_of (substitute str_of s r1) (k, v))"
    by (metis sublist_order.order_trans)
  have "sublist (token j) (substitute str_of (replace_step str_of (substitute str_of s r1) (k, v)) r2)"
  proof (rule substitute_keeps[OF token_delimited _ mid])
    fix k' assume 1: "k' \<in> fst ` set r2" and 2: "k' \<in> set ALL_POSSIBLE_VARIABLES"
    from 1 r2 have "k' \<in> set post" by force
    with j disj k_post have "k' \<noteq> j" by auto
    then show "\<not> sublist (token k') (token j)"
      using token_sublist_token plain_all 2 j_all by blast
  qed
  then show ?thesis by (simp add: row kv' substitute_append substitute_Cons)
qed

lemma keys_all_vars: "fst ` set (all_vars_for_template vars) = set PREDEFINED_VARIABLES"
  by (simp add: all_vars_for_template_def image_comp comp_def)

lemma answer_not_predefined: "''student_answer'' \<notin> set PREDEFINED_VARIABLES"
  by (simp add: PREDEFINED_VARIABLES_def)

lemma answer_token_kept:
  assumes t: "sublist (token ''student_answer'') s"
  shows "sublist (token ''student_answer'') (substitute str_of s (all_vars_for_template vars))"
proof (rule substitute_keeps[OF token_delimited _ t])
  fix k assume "k \<in> fst ` set (all_vars_for_template vars)" and a: "k \<in> set ALL_POSSIBLE_VARIABLES"
  then have "k \<noteq> ''student_answer''"
    using answer_not_predefined by (auto simp only: keys_all_vars)
  moreover have "plain_name ''student_answer''" by (simp add: plain_name_def)
  moreover have "plain_name k" using a by (rule plain_all)
  ultimately show "\<not> sublist (token k) (token ''student_answer'')"
    using token_sublist_token by blast
qed

lemma single_text:
  "generated_prompt (generate_prompt_action str_of prompt_template vars url (JStr ans)
       ''Text Box (for a single answer)'')
     = [replace (token ''student_answer'') ans
          (substitute str_of prompt_template (all_vars_for_template vars))]"
proof -
  have "(if truthy (JStr ans) then JStr ans else JStr []) = JStr ans" by simp
  then show ?thesis by (simp only: generated_single fill_last py_str.simps)
qed

lemma batch_text:
  "generated_prompt (generate_prompt_action str_of prompt_template vars url (JList (map JStr answers))
       ''Upload CSV (for multiple answers)'')
     = map (\<lambda>a. replace (token ''student_answer'') a
                   (substitute str_of prompt_template (all_vars_for_template vars))) answers"
  by (simp only: generated_batch fill_last map_map comp_def py_str.simps)

lemma generated_keep_token:
  assumes "sublist T prompt_template" "prefix ''{{'' T" "suffix ''}}'' T"
    and "\<And>k. k \<in> set ALL_POSSIBLE_VARIABLES \<Longrightarrow> \<not> sublist (token k) T"
    and "p \<in> set (generated_prompt (generate_prompt_action str_of prompt_template vars url ai m))"
  shows "sublist T p"
proof -
  from assms(5) obtain a where "p = fill str_of prompt_template vars a"
    using generated_are_fills by blast
  then show ?thesis
    unfolding fill_def using assms(1-4) by (simp add: substitute_keeps)
qed

section \<open>The fetch and the loop over the reference screens\<close>

lemma ensure_initialized_empty:
  "foldl ensure_initialized (map (\<lambda>var. (var, JStr [])) PREDEFINED_VARIABLES) PREDEFINED_VARIABLES
     = map (\<lambda>var. (var, JStr [])) PREDEFINED_VARIABLES"
  by (simp add: PREDEFINED_VARIABLES_def ensure_initialized_def dict_get_def)

lemma fetch_failure:
  assumes "content_url \<noteq> []" "fetch_json requests_get content_url = Inl e"
  shows "fetch_and_populate_variables_action str_of requests_get content_url st
           = (False,
              st\<lparr>fetched_variable_values := map (\<lambda>var. (var, JStr [])) PREDEFINED_VARIABLES\<rparr>,
              [Info (''Fetching data from: '' @ content_url @ ''...''), handler e])"
  using assms
  by (simp add: fetch_and_populate_variables_action_def Let_def ensure_initialized_empty)


lemma populate_dict:
  "populate str_of (JDict doc) (map (\<lambda>var. (var, JStr [])) PREDEFINED_VARIABLES)
     = Inr ([(''task_instruction'', fst (extract_interactions str_of doc)),
             (''vocabulary_list'', fst (extract_reference_screens str_of doc)),
             (''grammar_reference'', fst (snd (extract_reference_screens str_of doc))),
             (''communication_reference'', fst (snd (snd (extract_reference_screens str_of doc)))),
             (''guiding_questions'', fst (extract_secondary_screens str_of doc)),
             (''can_do_statements'', fst (snd (extract_interactions str_of doc)))],
            snd (snd (extract_interactions str_of doc))
              @ snd (snd (snd (extract_reference_screens str_of doc)))
              @ snd (extract_secondary_screens str_of doc)
              @ [Success ''Successfully fetched and processed data from URL.''])"
  by (simp add: populate_def PREDEFINED_VARIABLES_def split: prod.splits)

lemma fetch_success:
  assumes "content_url \<noteq> []" "fetch_json requests_get content_url = Inr (JDict doc)"
  shows "fetched_variable_values
           (fst (snd (fetch_and_populate_variables_action str_of requests_get content_url st)))
         = [(''task_instruction'', fst (extract_interactions str_of doc)),
             (''vocabulary_list'', fst (extract_reference_screens str_of doc)),
             (''grammar_reference'', fst (snd (extract_reference_screens str_of doc))),
             (''communication_reference'', fst (snd (snd (extract_reference_screens str_of doc)))),
             (''guiding_questions'', fst (extract_secondary_screens str_of doc)),
             (''can_do_statements'', fst (snd (extract_interactions str_of doc)))]"
  using assms
  by (simp add: fetch_and_populate_variables_action_def Let_def populate_dict)


lemma fetch_json_ok:
  assumes "requests_get content_url = Inr r" "\<not> (400 \<le> status_code r \<and> status_code r < 600)"
  shows "fetch_json requests_get content_url = json_body r"
  using assms by (auto simp: fetch_json_def raise_for_status_def)

lemma not_dict_items: "\<not> isinstance_dict v \<Longrightarrow> dict_items v = []"
  by (cases v) simp_all

lemma not_list_items: "\<not> isinstance_list v \<Longrightarrow> list_items v = []"
  by (cases v) simp_all

lemma dict_get_Nil: "dict_get [] k d = d"
  by (simp add: dict_get_def)

lemma reference_step_spec:
  "reference_step str_of (v, g, c) ref =
     (v @ (if category_of ref = JStr ''vocabulary'' then vocabulary_items str_of ref else []),
      (if category_of ref = JStr ''grammar'' \<and> isinstance_dict (contents_of ref)
       then reference_of ref else g),
      (if category_of ref = JStr ''communication'' \<and> isinstance_dict (contents_of ref)
       then reference_of ref else c))"
proof (cases "isinstance_dict ref")
  case False
  then show ?thesis
    by (simp add: reference_step_def category_of_def not_dict_items dict_get_Nil)
next
  case True
  show ?thesis
  proof (cases "isinstance_dict (contents_of ref)")
    case False
    then show ?thesis using True
      by (simp add: reference_step_def Let_def vocabulary_items_def not_dict_items dict_get_Nil
            contents_of_def[symmetric])
  next
    case c: True
    show ?thesis
    proof (cases "isinstance_list (dict_get (dict_items (contents_of ref)) ''vocabularyList'' (JList []))")
      case True
      then show ?thesis using \<open>isinstance_dict ref\<close> c
        by (simp add: reference_step_def Let_def vocabulary_items_def reference_of_def
              contents_of_def[symmetric] category_of_def[symmetric])
    next
      case False
      then show ?thesis using \<open>isinstance_dict ref\<close> c
        by (simp add: reference_step_def Let_def vocabulary_items_def reference_of_def not_list_items
              contents_of_def[symmetric] category_of_def[symmetric])
    qed
  qed
qed

lemma reference_loop:
  "foldl (reference_step str_of) (v, g, c) screens =
     (v @ collected_vocabulary str_of screens,
      last_reference ''grammar'' g screens,
      last_reference ''communication'' c screens)"
proof (induction screens rule: rev_induct)
  case Nil
  then show ?case
    by (simp add: collected_vocabulary_def last_reference_def matching_entries_def)
next
  case (snoc ref screens)
  then show ?case
    by (simp add: reference_step_spec collected_vocabulary_def last_reference_def
          matching_entries_def)
qed

lemma extract_reference_screens_spec:
  assumes "dict_get doc ''referenceScreens'' (JList []) = JList screens"
  shows "extract_reference_screens str_of doc =
           (JStr (join '', '' (collected_vocabulary str_of screens)),
            last_reference ''grammar'' (JStr []) screens,
            last_reference ''communication'' (JStr []) screens, [])"
  using assms by (simp add: extract_reference_screens_def reference_loop)

lemma fetched_keys_fixed:
  "map fst (fetched_variable_values
      (fst (snd (fetch_and_populate_variables_action str_of requests_get content_url st))))
     = PREDEFINED_VARIABLES"
proof (cases "content_url = []")
  case True
  then show ?thesis
    by (simp add: fetch_and_populate_variables_action_def Let_def comp_def)
next
  case False
  show ?thesis
  proof (cases "fetch_json requests_get content_url")
    case (Inl e)
    then show ?thesis using False by (simp add: fetch_failure comp_def)
  next
    case (Inr v)
    show ?thesis
    proof (cases v)
      case (JDict doc)
      then show ?thesis using False Inr
        by (simp add: fetch_success PREDEFINED_VARIABLES_def)
    qed (use False Inr in \<open>simp_all add: fetch_and_populate_variables_action_def Let_def populate_def
            ensure_initialized_empty comp_def\<close>)
  qed
qed

section \<open>Substitution\<close>

text \<open>
  Claim C9. A template in which the pattern \<^verbatim>\<open>{{...}}\<close> finds no placeholder comes back
  unchanged from the substitution, whatever the variables and the answer are.
\<close>

theorem no_placeholder_identity:
  "findall prompt_template = [] \<Longrightarrow> fill str_of prompt_template vars a = prompt_template"
proof -
  assume e: "findall prompt_template = []"
  have abs: "\<And>k. k \<in> set ALL_POSSIBLE_VARIABLES \<Longrightarrow> \<not> sublist (token k) prompt_template"
    using findall_empty[OF e] no_newline_all by blast
  show ?thesis unfolding fill_def by (rule substitute_absent) (rule abs)
qed

theorem no_placeholder_identity_witness:
  "findall ''Grade this text.'' = []
   \<and> fill (\<lambda>v. []) ''Grade this text.'' [(''task_instruction'', JStr ''Write'')] (JStr ''Hi'')
       = ''Grade this text.''"
proof -
  have h: "findall ''Grade this text.'' = []" by code_simp
  show ?thesis using h no_placeholder_identity [OF h] by simp
qed

text \<open>
  Claim C3. A batch of \<open>N\<close> answers gives \<open>N\<close> prompts in the order of the answers. Each is
  one run of the replacement loop on a dict that holds the six content variables, the same for
  every answer, followed by \<open>student_answer\<close> with the answer of the row.
\<close>

theorem batch_outputs_in_order:
  "generated_prompt (generate_prompt_action str_of prompt_template vars url (JList answers)
       ''Upload CSV (for multiple answers)'')
     = map (\<lambda>a. substitute str_of prompt_template
                   (all_vars_for_template vars @ [(''student_answer'', a)])) answers
   \<and> length (generated_prompt (generate_prompt_action str_of prompt_template vars url (JList answers)
       ''Upload CSV (for multiple answers)'')) = length answers"
  by (simp add: generated_batch fill_def row_vars_eq)

text \<open>
  Claim C10. In the single mode and in the batch mode the placeholder of \<open>student_answer\<close> is
  replaced last, in the text the six content variables have already been put into, and the
  answer is not scanned again: when the template holds the placeholder of the answer, the answer
  stands in the prompt as it was given, and so does every placeholder written inside the answer.
\<close>

theorem answer_replaced_last_and_kept_verbatim:
  "generated_prompt (generate_prompt_action str_of prompt_template vars url (JStr ans)
       ''Text Box (for a single answer)'')
     = [replace (token ''student_answer'') ans
          (substitute str_of prompt_template (all_vars_for_template vars))]
   \<and> generated_prompt (generate_prompt_action str_of prompt_template vars url (JList (map JStr answers))
       ''Upload CSV (for multiple answers)'')
     = map (\<lambda>a. replace (token ''student_answer'') a
                   (substitute str_of prompt_template (all_vars_for_template vars))) answers
   \<and> (sublist (token ''student_answer'') prompt_template \<longrightarrow>
        sublist ans (replace (token ''student_answer'') ans
                      (substitute str_of prompt_template (all_vars_for_template vars)))
        \<and> (\<forall>k. sublist (token k) ans \<longrightarrow>
              sublist (token k) (replace (token ''student_answer'') ans
                      (substitute str_of prompt_template (all_vars_for_template vars)))))"
proof (intro conjI impI allI)
  show "generated_prompt (generate_prompt_action str_of prompt_template vars url (JStr ans)
       ''Text Box (for a single answer)'')
     = [replace (token ''student_answer'') ans
          (substitute str_of prompt_template (all_vars_for_template vars))]"
    by (rule single_text)
  show "generated_prompt (generate_prompt_action str_of prompt_template vars url (JList (map JStr answers))
       ''Upload CSV (for multiple answers)'')
     = map (\<lambda>a. replace (token ''student_answer'') a
                   (substitute str_of prompt_template (all_vars_for_template vars))) answers"
    by (rule batch_text)
next
  assume t: "sublist (token ''student_answer'') prompt_template"
  have "sublist (token ''student_answer'')
          (substitute str_of prompt_template (all_vars_for_template vars))"
    using t by (rule answer_token_kept)
  then show v: "sublist ans (replace (token ''student_answer'') ans
                      (substitute str_of prompt_template (all_vars_for_template vars)))"
    by (rule replace_inserts [OF token_nonempty])
  fix k assume "sublist (token k) ans"
  from this v show "sublist (token k) (replace (token ''student_answer'') ans
                      (substitute str_of prompt_template (all_vars_for_template vars)))"
    by (rule sublist_order.order_trans)
qed

theorem answer_replaced_last_and_kept_verbatim_witness:
  "sublist (token ''student_answer'') ''Answer: {{student_answer}}''
   \<and> sublist (token ''task_instruction'') ''see {{task_instruction}}''
   \<and> sublist (token ''task_instruction'')
        (replace (token ''student_answer'') ''see {{task_instruction}}''
           (substitute (\<lambda>v. []) ''Answer: {{student_answer}}''
              (all_vars_for_template [(''task_instruction'', JStr ''Write'')])))
   \<and> generated_prompt (generate_prompt_action (\<lambda>v. []) ''Answer: {{student_answer}}''
        [(''task_instruction'', JStr ''Write'')] [] (JStr ''see {{task_instruction}}'')
        ''Text Box (for a single answer)'') = [''Answer: see {{task_instruction}}'']"
proof -
  have h1: "sublist (token ''student_answer'') ''Answer: {{student_answer}}''" by code_simp
  have h2: "sublist (token ''task_instruction'') ''see {{task_instruction}}''" by code_simp
  have h3: "replace (token ''student_answer'') ''see {{task_instruction}}''
           (substitute (\<lambda>v. []) ''Answer: {{student_answer}}''
              (all_vars_for_template [(''task_instruction'', JStr ''Write'')]))
            = ''Answer: see {{task_instruction}}''" by code_simp
  note T = answer_replaced_last_and_kept_verbatim
      [of "\<lambda>v. []" "''Answer: {{student_answer}}''" "[(''task_instruction'', JStr ''Write'')]"
          "[]" "''see {{task_instruction}}''" "[]"]
  have t3: "sublist (token ''task_instruction'')
        (replace (token ''student_answer'') ''see {{task_instruction}}''
           (substitute (\<lambda>v. []) ''Answer: {{student_answer}}''
              (all_vars_for_template [(''task_instruction'', JStr ''Write'')])))"
    using T [THEN conjunct2, THEN conjunct2, THEN mp, OF h1, THEN conjunct2, THEN spec, THEN mp, OF h2] .
  have t1: "generated_prompt (generate_prompt_action (\<lambda>v. []) ''Answer: {{student_answer}}''
        [(''task_instruction'', JStr ''Write'')] [] (JStr ''see {{task_instruction}}'')
        ''Text Box (for a single answer)'') = [''Answer: see {{task_instruction}}'']"
    using T [THEN conjunct1] by (simp only: h3)
  show ?thesis by (intro conjI h1 h2 t3 t1)
qed

text \<open>
  Claim C1, as the program has it. The loop replaces the placeholders one after the other, in
  the order of \<open>ALL_POSSIBLE_VARIABLES\<close>, each time in the whole text produced so far. The
  value put in for a variable \<open>k\<close> is therefore scanned by the replacements that come after
  \<open>k\<close>, and by no other: a placeholder \<open>j\<close> inside that value, with \<open>j\<close> replaced before
  \<open>k\<close> or \<open>j = k\<close>, stays in the prompt whenever the template holds the placeholder of \<open>k\<close>.
  The placeholder of \<open>task_instruction\<close>, the first variable, is such a \<open>j\<close> for every \<open>k\<close>.
\<close>

theorem value_scanned_only_by_later_replacements:
  assumes "ALL_POSSIBLE_VARIABLES = pre @ k # post"
    and "j \<in> set pre \<union> {k}"
    and "sublist (token k) prompt_template"
    and "sublist (token j)
           (py_str str_of
              (dict_get (dict_set (all_vars_for_template vars) ''student_answer'' a) k JNull))"
  shows "sublist (token j) (fill str_of prompt_template vars a)"
  unfolding fill_def
  by (rule substitute_inserted[where pre = pre and post = post and k = k and d = JNull])
     (use assms in \<open>simp_all add: map_fst_row distinct_all\<close>)

theorem value_scanned_only_by_later_replacements_witness:
  "ALL_POSSIBLE_VARIABLES = [''task_instruction''] @ ''vocabulary_list'' #
       [''grammar_reference'', ''communication_reference'', ''guiding_questions'',
        ''can_do_statements'', ''student_answer'']
   \<and> ''task_instruction'' \<in> set [''task_instruction''] \<union> {''vocabulary_list''}
   \<and> sublist (token ''vocabulary_list'') ''Words: {{vocabulary_list}}''
   \<and> sublist (token ''task_instruction'')
        (fill (\<lambda>v. []) ''Words: {{vocabulary_list}}''
           [(''vocabulary_list'', JStr ''see {{task_instruction}}''), (''task_instruction'', JStr ''Write'')]
           (JStr ''Hi''))"
proof -
  have h1: "ALL_POSSIBLE_VARIABLES = [''task_instruction''] @ ''vocabulary_list'' #
       [''grammar_reference'', ''communication_reference'', ''guiding_questions'',
        ''can_do_statements'', ''student_answer'']"
    by (simp add: ALL_POSSIBLE_VARIABLES_def PREDEFINED_VARIABLES_def)
  have h2: "''task_instruction'' \<in> set [''task_instruction''] \<union> {''vocabulary_list''}" by simp
  have h3: "sublist (token ''vocabulary_list'') ''Words: {{vocabulary_list}}''" by code_simp
  have h4: "sublist (token ''task_instruction'')
           (py_str (\<lambda>v. [])
              (dict_get (dict_set (all_vars_for_template
                 [(''vocabulary_list'', JStr ''see {{task_instruction}}''), (''task_instruction'', JStr ''Write'')])
                 ''student_answer'' (JStr ''Hi'')) ''vocabulary_list'' JNull))"
    by code_simp
  have c: "sublist (token ''task_instruction'')
        (fill (\<lambda>v. []) ''Words: {{vocabulary_list}}''
           [(''vocabulary_list'', JStr ''see {{task_instruction}}''), (''task_instruction'', JStr ''Write'')]
           (JStr ''Hi''))"
    by (rule value_scanned_only_by_later_replacements [OF h1 h2 h3 h4])
  show ?thesis by (intro conjI h1 h2 h3 c)
qed

text \<open>
  The claim as the specification words it fails: with the value \<^verbatim>\<open>{{vocabulary_list}}\<close> for
  \<open>task_instruction\<close> the inserted value is expanded by the next replacement, and the same
  replacements made in the reverse order give another text.
\<close>

theorem independent_replacement_counterexample:
  "fill (\<lambda>v. []) ''{{task_instruction}}''
      [(''task_instruction'', JStr ''{{vocabulary_list}}''), (''vocabulary_list'', JStr ''V'')]
      (JStr []) = ''V''
   \<and> substitute (\<lambda>v. []) ''{{task_instruction}}''
        (rev (dict_set (all_vars_for_template
           [(''task_instruction'', JStr ''{{vocabulary_list}}''), (''vocabulary_list'', JStr ''V'')])
           ''student_answer'' (JStr [])))
       = ''{{vocabulary_list}}''
   \<and> fill (\<lambda>v. []) ''{{task_instruction}}''
      [(''task_instruction'', JStr ''{{vocabulary_list}}''), (''vocabulary_list'', JStr ''V'')]
      (JStr [])
     \<noteq> substitute (\<lambda>v. []) ''{{task_instruction}}''
        (rev (dict_set (all_vars_for_template
           [(''task_instruction'', JStr ''{{vocabulary_list}}''), (''vocabulary_list'', JStr ''V'')])
           ''student_answer'' (JStr [])))"
  by code_simp

text \<open>
  Claim C6, as the program has it. The placeholders the pattern finds are compared with the
  whitelist before any replacement: when one of them is not whitelisted, the first message
  shown is the warning that lists them. Such a placeholder \<open>{{u}}\<close> stands unchanged in every
  prompt generated, provided no whitelisted placeholder lies inside its text. Generation goes
  on: the single mode gives one prompt, the batch mode one prompt for each answer.
\<close>

theorem unknown_token_warned_and_kept:
  assumes "u \<in> set (findall prompt_template)"
    and "u \<notin> set ALL_POSSIBLE_VARIABLES"
    and "\<forall>k\<in>set ALL_POSSIBLE_VARIABLES. \<not> sublist (token k) (token u)"
  shows "hd (shown (generate_prompt_action str_of prompt_template vars url answers_input answers_method))
           = WarningNotPredefined (set (findall prompt_template) - set ALL_POSSIBLE_VARIABLES)
         \<and> u \<in> set (findall prompt_template) - set ALL_POSSIBLE_VARIABLES
         \<and> (\<forall>p\<in>set (generated_prompt
                (generate_prompt_action str_of prompt_template vars url answers_input answers_method)).
              sublist (token u) p)
         \<and> length (generated_prompt (generate_prompt_action str_of prompt_template vars url
                answers_input ''Text Box (for a single answer)'')) = 1
         \<and> length (generated_prompt (generate_prompt_action str_of prompt_template vars url
                (JList answers) ''Upload CSV (for multiple answers)'')) = length answers"
proof (intro conjI ballI)
  from assms(1,2) show in_diff: "u \<in> set (findall prompt_template) - set ALL_POSSIBLE_VARIABLES"
    by simp
  then have "set (findall prompt_template) - set ALL_POSSIBLE_VARIABLES \<noteq> {}" by blast
  then show "hd (shown (generate_prompt_action str_of prompt_template vars url answers_input answers_method))
           = WarningNotPredefined (set (findall prompt_template) - set ALL_POSSIBLE_VARIABLES)"
    by (rule shown_warning)
  show "length (generated_prompt (generate_prompt_action str_of prompt_template vars url
                answers_input ''Text Box (for a single answer)'')) = 1"
    by (simp only: generated_single list.size)
  show "length (generated_prompt (generate_prompt_action str_of prompt_template vars url
                (JList answers) ''Upload CSV (for multiple answers)'')) = length answers"
    by (simp only: generated_batch length_map)
next
  fix p
  assume p: "p \<in> set (generated_prompt
                (generate_prompt_action str_of prompt_template vars url answers_input answers_method))"
  have t: "sublist (token u) prompt_template" using assms(1) by (rule findall_sublist)
  have free: "\<And>k. k \<in> set ALL_POSSIBLE_VARIABLES \<Longrightarrow> \<not> sublist (token k) (token u)"
    using assms(3) by blast
  show "sublist (token u) p"
    by (rule generated_keep_token [OF t token_delimited free p])
qed

theorem unknown_token_warned_and_kept_witness:
  "hd (shown (generate_prompt_action (\<lambda>v. []) ''{{unknown_var}}: {{student_answer}}'' [] []
              (JList [JStr ''a'', JStr ''b'']) ''Upload CSV (for multiple answers)''))
     = WarningNotPredefined
         (set (findall ''{{unknown_var}}: {{student_answer}}'') - set ALL_POSSIBLE_VARIABLES)
   \<and> ''unknown_var'' \<in> set (findall ''{{unknown_var}}: {{student_answer}}'') - set ALL_POSSIBLE_VARIABLES
   \<and> generated_prompt (generate_prompt_action (\<lambda>v. []) ''{{unknown_var}}: {{student_answer}}'' [] []
              (JList [JStr ''a'', JStr ''b'']) ''Upload CSV (for multiple answers)'')
        = [''{{unknown_var}}: a'', ''{{unknown_var}}: b'']
   \<and> sublist (token ''unknown_var'') ''{{unknown_var}}: a''
   \<and> sublist (token ''unknown_var'') ''{{unknown_var}}: b''"
proof -
  have h1: "''unknown_var'' \<in> set (findall ''{{unknown_var}}: {{student_answer}}'')" by code_simp
  have h2: "''unknown_var'' \<notin> set ALL_POSSIBLE_VARIABLES" by code_simp
  have h3: "\<forall>k\<in>set ALL_POSSIBLE_VARIABLES. \<not> sublist (token k) (token ''unknown_var'')"
    by code_simp
  have "map (fill (\<lambda>v. []) ''{{unknown_var}}: {{student_answer}}'' []) [JStr ''a'', JStr ''b'']
          = [''{{unknown_var}}: a'', ''{{unknown_var}}: b'']" by code_simp
  then have h4: "generated_prompt (generate_prompt_action (\<lambda>v. []) ''{{unknown_var}}: {{student_answer}}'' [] []
              (JList [JStr ''a'', JStr ''b'']) ''Upload CSV (for multiple answers)'')
        = [''{{unknown_var}}: a'', ''{{unknown_var}}: b'']"
    by (simp only: generated_batch)
  note T = unknown_token_warned_and_kept
      [OF h1 h2 h3, where str_of = "\<lambda>v. []" and vars = "[]" and url = "[]"
         and answers_input = "JList [JStr ''a'', JStr ''b'']"
         and answers_method = "''Upload CSV (for multiple answers)''"]
  have every: "\<forall>p\<in>set [''{{unknown_var}}: a'', ''{{unknown_var}}: b''].
                 sublist (token ''unknown_var'') p"
    using T [THEN conjunct2, THEN conjunct2, THEN conjunct1] by (simp only: h4)
  have s1: "sublist (token ''unknown_var'') ''{{unknown_var}}: a''"
    using every by (rule bspec) simp
  have s2: "sublist (token ''unknown_var'') ''{{unknown_var}}: b''"
    using every by (rule bspec) simp
  show ?thesis
    by (intro conjI T [THEN conjunct1] T [THEN conjunct2, THEN conjunct1] h4 s1 s2)
qed

text \<open>
  Without the proviso the claim fails: in the template \<^verbatim>\<open>{{{student_answer}}\<close> the pattern
  finds the placeholder \<^verbatim>\<open>{{{student_answer}}\<close>, which is not whitelisted, and the
  replacement of \<^verbatim>\<open>{{student_answer}}\<close> inside it changes it.
\<close>

theorem unknown_token_verbatim_counterexample:
  "''{student_answer'' \<in> set (findall ''{{{student_answer}}'')
   \<and> ''{student_answer'' \<notin> set ALL_POSSIBLE_VARIABLES
   \<and> generated_prompt (generate_prompt_action (\<lambda>v. []) ''{{{student_answer}}'' [] [] (JStr ''hi'')
        ''Text Box (for a single answer)'') = [''{hi'']
   \<and> \<not> sublist (token ''{student_answer'') ''{hi''"
proof -
  have h1: "''{student_answer'' \<in> set (findall ''{{{student_answer}}'')" by code_simp
  have h2: "''{student_answer'' \<notin> set ALL_POSSIBLE_VARIABLES" by code_simp
  have "fill (\<lambda>v. []) ''{{{student_answer}}'' [] (if truthy (JStr ''hi'') then JStr ''hi'' else JStr [])
          = ''{hi''" by code_simp
  then have h3: "generated_prompt (generate_prompt_action (\<lambda>v. []) ''{{{student_answer}}'' [] []
        (JStr ''hi'') ''Text Box (for a single answer)'') = [''{hi'']"
    by (simp only: generated_single)
  have h4: "\<not> sublist (token ''{student_answer'') ''{hi''" by code_simp
  show ?thesis by (intro conjI h1 h2 h3 h4)
qed

section \<open>Fetching\<close>




text \<open>
  Claim C8. For a document whose \<^verbatim>\<open>referenceScreens\<close> is the list \<open>screens\<close>, the variable
  \<open>vocabulary_list\<close> is the join with \<^verbatim>\<open>", "\<close> of \<open>collected_vocabulary\<close>: the truthy items,
  as strings, of the \<^verbatim>\<open>vocabularyList\<close> of every entry whose category is
  \<^verbatim>\<open>"vocabulary"\<close>, in the order of the list. The witness is the example of the claim, which
  gives \<^verbatim>\<open>"cat, dog"\<close>.
\<close>

theorem vocabulary_collected_in_order:
  assumes "content_url \<noteq> []"
    and "requests_get content_url = Inr r"
    and "\<not> (400 \<le> status_code r \<and> status_code r < 600)"
    and "json_body r = Inr (JDict doc)"
    and "dict_get doc ''referenceScreens'' (JList []) = JList screens"
  shows "dict_get (fetched_variable_values
            (fst (snd (fetch_and_populate_variables_action str_of requests_get content_url st))))
           ''vocabulary_list'' JNull
         = JStr (join '', '' (collected_vocabulary str_of screens))"
proof -
  have "fetch_json requests_get content_url = Inr (JDict doc)"
    using fetch_json_ok [of requests_get content_url r] assms(2,3,4) by simp
  then show ?thesis
    using assms(1,5)
    by (simp add: fetch_success extract_reference_screens_spec dict_get_def)
qed

theorem vocabulary_collected_in_order_witness:
  "dict_get (fetched_variable_values
      (fst (snd (fetch_and_populate_variables_action (\<lambda>v. [])
         (\<lambda>u. Inr \<lparr>status_code = 200, http_error = [],
                     json_body = Inr (JDict [(''referenceScreens'',
                       JList [JDict [(''category'', JStr ''vocabulary''),
                                     (''contents'', JDict [(''vocabularyList'',
                                        JList [JStr ''cat'', JStr ''dog''])])]])])\<rparr>)
         ''http://host/activity''
         \<lparr>fetched_variable_values = [], single_answer = [], uploaded_csv_answers = None,
          last_uploaded_filename = None\<rparr>))))
     ''vocabulary_list'' JNull
   = JStr ''cat, dog''"
proof -
  let ?screens = "[JDict [(''category'', JStr ''vocabulary''),
                          (''contents'', JDict [(''vocabularyList'', JList [JStr ''cat'', JStr ''dog''])])]]"
  let ?doc = "[(''referenceScreens'', JList ?screens)]"
  let ?r = "\<lparr>status_code = 200, http_error = [], json_body = Inr (JDict ?doc)\<rparr>"
  have h1: "''http://host/activity'' \<noteq> []" by simp
  have h2: "(\<lambda>u. Inr ?r) ''http://host/activity'' = Inr ?r" by simp
  have h3: "\<not> (400 \<le> status_code ?r \<and> status_code ?r < 600)" by simp
  have h4: "json_body ?r = Inr (JDict ?doc)" by simp
  have h5: "dict_get ?doc ''referenceScreens'' (JList []) = JList ?screens"
    by (simp add: dict_get_def)
  have e: "join '', '' (collected_vocabulary (\<lambda>v. []) ?screens) = ''cat, dog''"
    by (simp add: collected_vocabulary_def vocabulary_items_def category_of_def contents_of_def
          dict_get_def)
  show ?thesis
    using vocabulary_collected_in_order
      [where requests_get = "\<lambda>u. Inr ?r" and content_url = "''http://host/activity''" and r = ?r
         and doc = ?doc and screens = ?screens and str_of = "\<lambda>v. []",
       OF h1 h2 h3 h4 h5]
    by (simp only: e)
qed

text \<open>
  Claim C5, as the program has it. The loop acts on an entry only when its \<^verbatim>\<open>contents\<close> is
  an object. Among the entries of \<^verbatim>\<open>referenceScreens\<close> that have the category
  \<^verbatim>\<open>"grammar"\<close> and an object as \<^verbatim>\<open>contents\<close> (\<open>matching_entries\<close>), the last one in the
  order of the list gives \<open>grammar_reference\<close>: the variable is the field \<^verbatim>\<open>reference\<close> of
  its contents, the empty string when the field is absent. The same holds for
  \<^verbatim>\<open>"communication"\<close> and \<open>communication_reference\<close>.
\<close>

theorem last_matching_reference_wins:
  assumes "content_url \<noteq> []"
    and "requests_get content_url = Inr r"
    and "\<not> (400 \<le> status_code r \<and> status_code r < 600)"
    and "json_body r = Inr (JDict doc)"
    and "dict_get doc ''referenceScreens'' (JList []) = JList screens"
  shows "(matching_entries ''grammar'' screens \<noteq> [] \<longrightarrow>
            dict_get (fetched_variable_values
                (fst (snd (fetch_and_populate_variables_action str_of requests_get content_url st))))
              ''grammar_reference'' JNull
            = reference_of (last (matching_entries ''grammar'' screens)))
         \<and> (matching_entries ''communication'' screens \<noteq> [] \<longrightarrow>
            dict_get (fetched_variable_values
                (fst (snd (fetch_and_populate_variables_action str_of requests_get content_url st))))
              ''communication_reference'' JNull
            = reference_of (last (matching_entries ''communication'' screens)))"
proof -
  have "fetch_json requests_get content_url = Inr (JDict doc)"
    using fetch_json_ok [of requests_get content_url r] assms(2,3,4) by simp
  then show ?thesis
    using assms(1,5)
    by (simp add: fetch_success extract_reference_screens_spec dict_get_def last_reference_def)
qed

theorem last_matching_reference_wins_witness:
  "dict_get (fetched_variable_values
      (fst (snd (fetch_and_populate_variables_action (\<lambda>v. [])
         (\<lambda>u. Inr \<lparr>status_code = 200, http_error = [],
                     json_body = Inr (JDict [(''referenceScreens'',
                       JList [JDict [(''category'', JStr ''grammar''),
                                     (''contents'', JDict [(''reference'', JStr ''past simple'')])],
                              JDict [(''category'', JStr ''communication''),
                                     (''contents'', JDict [(''reference'', JStr ''greetings'')])],
                              JDict [(''category'', JStr ''grammar''),
                                     (''contents'', JDict [(''reference'', JStr ''present perfect'')])],
                              JDict [(''category'', JStr ''communication''),
                                     (''contents'', JDict [(''reference'', JStr ''farewells'')])]])])\<rparr>)
         ''http://host/activity''
         \<lparr>fetched_variable_values = [], single_answer = [], uploaded_csv_answers = None,
          last_uploaded_filename = None\<rparr>))))
     ''grammar_reference'' JNull
   = JStr ''present perfect''
   \<and> dict_get (fetched_variable_values
      (fst (snd (fetch_and_populate_variables_action (\<lambda>v. [])
         (\<lambda>u. Inr \<lparr>status_code = 200, http_error = [],
                     json_body = Inr (JDict [(''referenceScreens'',
                       JList [JDict [(''category'', JStr ''grammar''),
                                     (''contents'', JDict [(''reference'', JStr ''past simple'')])],
                              JDict [(''category'', JStr ''communication''),
                                     (''contents'', JDict [(''reference'', JStr ''greetings'')])],
                              JDict [(''category'', JStr ''grammar''),
                                     (''contents'', JDict [(''reference'', JStr ''present perfect'')])],
                              JDict [(''category'', JStr ''communication''),
                                     (''contents'', JDict [(''reference'', JStr ''farewells'')])]])])\<rparr>)
         ''http://host/activity''
         \<lparr>fetched_variable_values = [], single_answer = [], uploaded_csv_answers = None,
          last_uploaded_filename = None\<rparr>))))
     ''communication_reference'' JNull
   = JStr ''farewells''"
proof -
  let ?screens = "[JDict [(''category'', JStr ''grammar''),
                          (''contents'', JDict [(''reference'', JStr ''past simple'')])],
                   JDict [(''category'', JStr ''communication''),
                          (''contents'', JDict [(''reference'', JStr ''greetings'')])],
                   JDict [(''category'', JStr ''grammar''),
                          (''contents'', JDict [(''reference'', JStr ''present perfect'')])],
                   JDict [(''category'', JStr ''communication''),
                          (''contents'', JDict [(''reference'', JStr ''farewells'')])]]"
  let ?doc = "[(''referenceScreens'', JList ?screens)]"
  let ?r = "\<lparr>status_code = 200, http_error = [], json_body = Inr (JDict ?doc)\<rparr>"
  have h1: "''http://host/activity'' \<noteq> []" by simp
  have h2: "(\<lambda>u. Inr ?r) ''http://host/activity'' = Inr ?r" by simp
  have h3: "\<not> (400 \<le> status_code ?r \<and> status_code ?r < 600)" by simp
  have h4: "json_body ?r = Inr (JDict ?doc)" by simp
  have h5: "dict_get ?doc ''referenceScreens'' (JList []) = JList ?screens"
    by (simp add: dict_get_def)
  have g: "matching_entries ''grammar'' ?screens \<noteq> []"
    and rg: "reference_of (last (matching_entries ''grammar'' ?screens)) = JStr ''present perfect''"
    and c: "matching_entries ''communication'' ?screens \<noteq> []"
    and rc: "reference_of (last (matching_entries ''communication'' ?screens)) = JStr ''farewells''"
    by code_simp+
  note T = last_matching_reference_wins
      [where requests_get = "\<lambda>u. Inr ?r" and content_url = "''http://host/activity''" and r = ?r
         and doc = ?doc and screens = ?screens and str_of = "\<lambda>v. []",
       OF h1 h2 h3 h4 h5]
  show ?thesis
    using T [THEN conjunct1, THEN mp, OF g] T [THEN conjunct2, THEN mp, OF c]
    by (simp only: rg rc)
qed

text \<open>
  For the last entry of the category as such the claim fails: when the \<^verbatim>\<open>contents\<close> of the
  last entry of category \<^verbatim>\<open>"grammar"\<close> is not an object, the loop passes over it and
  \<open>grammar_reference\<close> stays the reference of the entry before.
\<close>

theorem last_grammar_entry_skipped_counterexample:
  "entries_of_category ''grammar''
      [JDict [(''category'', JStr ''grammar''), (''contents'', JDict [(''reference'', JStr ''g1'')])],
       JDict [(''category'', JStr ''grammar''), (''contents'', JStr ''g2'')]]
     = [JDict [(''category'', JStr ''grammar''), (''contents'', JDict [(''reference'', JStr ''g1'')])],
        JDict [(''category'', JStr ''grammar''), (''contents'', JStr ''g2'')]]
   \<and> dict_get (fetched_variable_values
      (fst (snd (fetch_and_populate_variables_action (\<lambda>v. [])
         (\<lambda>u. Inr \<lparr>status_code = 200, http_error = [],
                     json_body = Inr (JDict [(''referenceScreens'',
                       JList [JDict [(''category'', JStr ''grammar''),
                                     (''contents'', JDict [(''reference'', JStr ''g1'')])],
                              JDict [(''category'', JStr ''grammar''),
                                     (''contents'', JStr ''g2'')]])])\<rparr>)
         ''http://host/activity''
         \<lparr>fetched_variable_values = [], single_answer = [], uploaded_csv_answers = None,
          last_uploaded_filename = None\<rparr>))))
     ''grammar_reference'' JNull
     = reference_of (JDict [(''category'', JStr ''grammar''),
                            (''contents'', JDict [(''reference'', JStr ''g1'')])])
   \<and> reference_of (JDict [(''category'', JStr ''grammar''),
                            (''contents'', JDict [(''reference'', JStr ''g1'')])]) = JStr ''g1''
   \<and> reference_of (JDict [(''category'', JStr ''grammar''), (''contents'', JStr ''g2'')]) = JStr []
   \<and> reference_of (JDict [(''category'', JStr ''grammar''),
                            (''contents'', JDict [(''reference'', JStr ''g1'')])])
       \<noteq> reference_of (last (entries_of_category ''grammar''
           [JDict [(''category'', JStr ''grammar''), (''contents'', JDict [(''reference'', JStr ''g1'')])],
            JDict [(''category'', JStr ''grammar''), (''contents'', JStr ''g2'')]]))"
proof -
  let ?e1 = "JDict [(''category'', JStr ''grammar''), (''contents'', JDict [(''reference'', JStr ''g1'')])]"
  let ?e2 = "JDict [(''category'', JStr ''grammar''), (''contents'', JStr ''g2'')]"
  let ?doc = "[(''referenceScreens'', JList [?e1, ?e2])]"
  let ?r = "\<lparr>status_code = 200, http_error = [], json_body = Inr (JDict ?doc)\<rparr>"
  have c: "entries_of_category ''grammar'' [?e1, ?e2] = [?e1, ?e2]"
    by (simp add: entries_of_category_def category_of_def dict_get_def)
  have u: "''http://host/activity'' \<noteq> []" by simp
  have j: "fetch_json (\<lambda>u. Inr ?r) ''http://host/activity'' = Inr (JDict ?doc)"
    by (simp add: fetch_json_def raise_for_status_def)
  have r1: "reference_of ?e1 = JStr ''g1''"
    by (simp add: reference_of_def contents_of_def dict_get_def)
  have r2: "reference_of ?e2 = JStr []"
    by (simp add: reference_of_def contents_of_def dict_get_def)
  have s: "dict_get ?doc ''referenceScreens'' (JList []) = JList [?e1, ?e2]"
    by (simp add: dict_get_def)
  have l: "last_reference ''grammar'' (JStr []) [?e1, ?e2] = JStr ''g1''"
    by (simp add: last_reference_def matching_entries_def category_of_def contents_of_def
          reference_of_def dict_get_def)
  have g: "dict_get (fetched_variable_values
      (fst (snd (fetch_and_populate_variables_action (\<lambda>v. []) (\<lambda>u. Inr ?r) ''http://host/activity''
         \<lparr>fetched_variable_values = [], single_answer = [], uploaded_csv_answers = None,
          last_uploaded_filename = None\<rparr>))))
     ''grammar_reference'' JNull = reference_of ?e1"
    by (simp add: fetch_success [OF u j] extract_reference_screens_spec [OF s] l r1 dict_get_def)
  have d: "reference_of ?e1 \<noteq> reference_of (last (entries_of_category ''grammar'' [?e1, ?e2]))"
  proof -
    have "last (entries_of_category ''grammar'' [?e1, ?e2]) = ?e2" by (simp add: c)
    then show ?thesis by (simp add: r1 r2)
  qed
  show ?thesis by (intro conjI c g r1 r2 d)
qed

text \<open>
  Claim C4. The keys stored by a fetch are the six variable names, for every outcome of the
  request (lemma \<open>fetched_keys_fixed\<close>). The values are not always strings: the fields
  \<^verbatim>\<open>instruction\<close> and \<^verbatim>\<open>reference\<close> are stored as the document has them. For the document
  \<^verbatim>\<open>{"interactions": [{"instruction": null}]}\<close> the value stored for \<open>task_instruction\<close> is
  \<^verbatim>\<open>None\<close>.
\<close>

theorem null_instruction_stored_as_none:
  "fetched_variable_values
      (fst (snd (fetch_and_populate_variables_action (\<lambda>v. [])
         (\<lambda>u. Inr \<lparr>status_code = 200, http_error = [],
                     json_body = Inr (JDict [(''interactions'',
                       JList [JDict [(''instruction'', JNull)]])])\<rparr>)
         ''http://host/activity''
         \<lparr>fetched_variable_values = [], single_answer = [], uploaded_csv_answers = None,
          last_uploaded_filename = None\<rparr>)))
   = [(''task_instruction'', JNull), (''vocabulary_list'', JStr []), (''grammar_reference'', JStr []),
      (''communication_reference'', JStr []), (''guiding_questions'', JStr []),
      (''can_do_statements'', JStr [])]"
proof -
  let ?doc = "[(''interactions'', JList [JDict [(''instruction'', JNull)]])]"
  let ?r = "\<lparr>status_code = 200, http_error = [], json_body = Inr (JDict ?doc)\<rparr>"
  have j: "fetch_json (\<lambda>u. Inr ?r) ''http://host/activity'' = Inr (JDict ?doc)"
    by (simp add: fetch_json_def raise_for_status_def)
  have i: "extract_interactions (\<lambda>v. []) ?doc = (JNull, JStr [], [])"
    by (simp add: extract_interactions_def dict_get_def Let_def)
  have r: "extract_reference_screens (\<lambda>v. []) ?doc = (JStr [], JStr [], JStr [], [])"
    by (simp add: extract_reference_screens_def dict_get_def Let_def)
  have s: "extract_secondary_screens (\<lambda>v. []) ?doc = (JStr [], [])"
    by (simp add: extract_secondary_screens_def dict_get_def Let_def)
  show ?thesis
    by (simp add: fetch_success [OF _ j] i r s)
qed

section \<open>Loading a batch\<close>

text \<open>
  Claim C7, as the program has it. An uploaded file is read when its name differs from the name
  of the file read last. When such a file has no column named \<^verbatim>\<open>Answers\<close>, an error is shown,
  no answer is accepted and the answers loaded before are cleared, together with the remembered
  file name.
\<close>

theorem missing_answers_column_clears:
  assumes "Some (name f) \<noteq> last_uploaded_filename st"
    and "read_csv f = Inr df"
    and "''Answers'' \<notin> fst ` set df"
  shows "uploaded_csv_answers (fst (upload_csv cell_str (Some f) st)) = None
         \<and> last_uploaded_filename (fst (upload_csv cell_str (Some f) st)) = None
         \<and> snd (upload_csv cell_str (Some f) st)
             = [Error ''CSV file is missing the required 'Answers' column. Please check the header.'']"
  using assms by (simp add: upload_csv_def Let_def)

theorem missing_answers_column_clears_witness:
  "uploaded_csv_answers (fst (upload_csv (\<lambda>c. c)
       (Some \<lparr>name = ''b.csv'', read_csv = Inr [(''Responses'', [''x'', ''y''])]\<rparr>)
       \<lparr>fetched_variable_values = [], single_answer = [], uploaded_csv_answers = Some [''old''],
        last_uploaded_filename = Some ''a.csv''\<rparr>)) = None
   \<and> last_uploaded_filename (fst (upload_csv (\<lambda>c. c)
       (Some \<lparr>name = ''b.csv'', read_csv = Inr [(''Responses'', [''x'', ''y''])]\<rparr>)
       \<lparr>fetched_variable_values = [], single_answer = [], uploaded_csv_answers = Some [''old''],
        last_uploaded_filename = Some ''a.csv''\<rparr>)) = None
   \<and> snd (upload_csv (\<lambda>c. c)
       (Some \<lparr>name = ''b.csv'', read_csv = Inr [(''Responses'', [''x'', ''y''])]\<rparr>)
       \<lparr>fetched_variable_values = [], single_answer = [], uploaded_csv_answers = Some [''old''],
        last_uploaded_filename = Some ''a.csv''\<rparr>)
     = [Error ''CSV file is missing the required 'Answers' column. Please check the header.'']"
proof -
  let ?f = "\<lparr>name = ''b.csv'', read_csv = Inr [(''Responses'', [''x'', ''y''])]\<rparr>
              :: string uploaded_file"
  let ?st = "\<lparr>fetched_variable_values = [], single_answer = [], uploaded_csv_answers = Some [''old''],
        last_uploaded_filename = Some ''a.csv''\<rparr>"
  have h1: "Some (name ?f) \<noteq> last_uploaded_filename ?st" by simp
  have h2: "read_csv ?f = Inr [(''Responses'', [''x'', ''y''])]" by simp
  have h3: "''Answers'' \<notin> fst ` set [(''Responses'', [''x'', ''y''])]" by simp
  show ?thesis
    by (rule missing_answers_column_clears
          [where f = ?f and st = ?st and df = "[(''Responses'', [''x'', ''y''])]" and cell_str = "\<lambda>c. c",
           OF h1 h2 h3])
qed

text \<open>
  A file with the name of the file read last is not read again: its table may lack the column,
  and still the earlier answers stay and no error is shown.
\<close>

theorem same_name_upload_keeps_answers_counterexample:
  "''Answers'' \<notin> fst ` set [(''Responses'', [''x'', ''y''])]
   \<and> upload_csv (\<lambda>c. c)
       (Some \<lparr>name = ''a.csv'', read_csv = Inr [(''Responses'', [''x'', ''y''])]\<rparr>)
       \<lparr>fetched_variable_values = [], single_answer = [], uploaded_csv_answers = Some [''old''],
        last_uploaded_filename = Some ''a.csv''\<rparr>
     = (\<lparr>fetched_variable_values = [], single_answer = [], uploaded_csv_answers = Some [''old''],
        last_uploaded_filename = Some ''a.csv''\<rparr>,
        [Info ''Using previously uploaded file: 'a.csv'. Contains 1 answers.''])"
  by (simp add: upload_csv_def Let_def quote_def str_nat.simps)

end
